theory Spec2Isabelle
  imports Complex_Main
begin

section \<open>JavaScript numbers\<close>

text \<open>
  Every \<^verbatim>\<open>number\<close> of the TypeScript sources is an IEEE-754 binary64 value. A finite
  value other than \<^verbatim>\<open>-0\<close> is \<open>Fin x\<close> for the real \<open>x\<close> it denotes (\<open>Fin 0\<close> is \<^verbatim>\<open>+0\<close>);
  \<^verbatim>\<open>-0\<close>, the two infinities and NaN are values of their own. Every arithmetic
  operation rounds its exact result to the nearest binary64 value, ties to even, with
  gradual underflow and overflow to an infinity.
\<close>

datatype jsnum = Fin real | NZero | PInf | NInf | NaN

text \<open>The number of binary digits of a natural number.\<close>

fun bit_length :: "nat \<Rightarrow> nat" where
  "bit_length n = (if n = 0 then 0 else Suc (bit_length (n div 2)))"

declare bit_length.simps [simp del]

text \<open>The binary exponent of a positive real: \<open>2\<^sup>e \<le> m < 2\<^sup>e\<^sup>+\<^sup>1\<close>.\<close>

definition expo :: "real \<Rightarrow> int" where
  "expo m =
     (if 1 \<le> m then int (bit_length (nat \<lfloor>m\<rfloor>)) - 1
      else - int (bit_length (nat (\<lceil>1 / m\<rceil> - 1))))"

definition pow2 :: "int \<Rightarrow> real" where
  "pow2 k = (if 0 \<le> k then 2 ^ nat k else 1 / 2 ^ nat (- k))"

text \<open>The nearest integer, the even one on a tie.\<close>

definition round_even :: "real \<Rightarrow> int" where
  "round_even x =
     (let n = \<lfloor>x\<rfloor>; f = x - of_int n in
      if f < 1 / 2 then n else if 1 / 2 < f then n + 1 else if even n then n else n + 1)"

text \<open>
  A magnitude rounded to 53 significant bits, or to a multiple of \<open>2\<^sup>-\<^sup>1\<^sup>0\<^sup>7\<^sup>4\<close> below the
  normal range.
\<close>

definition round_mag :: "real \<Rightarrow> real" where
  "round_mag m =
     (let ulp = pow2 (max (expo m) (- 1022) - 52) in of_int (round_even (m / ulp)) * ulp)"

text \<open>
  The binary64 value of a sign and an exact magnitude: an infinity from \<open>2\<^sup>1\<^sup>0\<^sup>2\<^sup>4\<close> on, a
  signed zero when the magnitude rounds to zero.
\<close>

definition fl :: "bool \<Rightarrow> real \<Rightarrow> jsnum" where
  "fl negative m =
     (let r = round_mag m in
      if 2 ^ 1024 \<le> r then (if negative then NInf else PInf)
      else if r = 0 then (if negative then NZero else Fin 0)
      else Fin (if negative then - r else r))"

text \<open>The sign bit of a value that is not NaN, and the real a finite value denotes.\<close>

definition neg :: "jsnum \<Rightarrow> bool" where
  "neg a = (case a of Fin x \<Rightarrow> x < 0 | NZero \<Rightarrow> True | NInf \<Rightarrow> True | _ \<Rightarrow> False)"

definition val :: "jsnum \<Rightarrow> real" where
  "val a = (case a of Fin x \<Rightarrow> x | _ \<Rightarrow> 0)"

definition is_inf :: "jsnum \<Rightarrow> bool" where
  "is_inf a = (a = PInf \<or> a = NInf)"

definition is_zero :: "jsnum \<Rightarrow> bool" where
  "is_zero a = (a = Fin 0 \<or> a = NZero)"

text \<open>\<^verbatim>\<open>a < b\<close>: false as soon as one side is NaN; the two zeros are equal.\<close>

definition js_lt :: "jsnum \<Rightarrow> jsnum \<Rightarrow> bool" where
  "js_lt a b =
     (if a = NaN \<or> b = NaN then False
      else if a = PInf \<or> b = NInf then False
      else if a = NInf \<or> b = PInf then True
      else val a < val b)"

text \<open>\<^verbatim>\<open>a > b\<close>\<close>

definition js_gt :: "jsnum \<Rightarrow> jsnum \<Rightarrow> bool" where
  "js_gt a b = js_lt b a"

text \<open>\<^verbatim>\<open>a <= b\<close>\<close>

definition js_le :: "jsnum \<Rightarrow> jsnum \<Rightarrow> bool" where
  "js_le a b =
     (if a = NaN \<or> b = NaN then False
      else if a = NInf \<or> b = PInf then True
      else if a = PInf \<or> b = NInf then False
      else val a \<le> val b)"

text \<open>\<^verbatim>\<open>a >= b\<close>\<close>

definition js_ge :: "jsnum \<Rightarrow> jsnum \<Rightarrow> bool" where
  "js_ge a b = js_le b a"

text \<open>Truthiness of a number: both zeros and \<^verbatim>\<open>NaN\<close> are falsy.\<close>

fun truthy :: "jsnum \<Rightarrow> bool" where
  "truthy (Fin a) = (a \<noteq> 0)"
| "truthy NZero = False"
| "truthy NaN = False"
| "truthy _ = True"

text \<open>
  Truthiness of an optional number (\<open>None\<close> is \<^verbatim>\<open>undefined\<close> or \<^verbatim>\<open>null\<close>), as in
  \<^verbatim>\<open>standard.min && ...\<close> and \<^verbatim>\<open>item.required_min ? ... : ...\<close>.
\<close>

fun truthy_opt :: "jsnum option \<Rightarrow> bool" where
  "truthy_opt None = False"
| "truthy_opt (Some a) = truthy a"

text \<open>\<^verbatim>\<open>x || 0\<close> on an optional number.\<close>

fun or_zero :: "jsnum option \<Rightarrow> jsnum" where
  "or_zero None = Fin 0"
| "or_zero (Some a) = (if truthy a then a else Fin 0)"

text \<open>
  \<^verbatim>\<open>a + b\<close>: opposite infinities give NaN; a zero sum is \<^verbatim>\<open>+0\<close> unless both operands
  are \<^verbatim>\<open>-0\<close>.
\<close>

definition js_add :: "jsnum \<Rightarrow> jsnum \<Rightarrow> jsnum" where
  "js_add a b =
     (if a = NaN \<or> b = NaN then NaN
      else if (a = PInf \<and> b = NInf) \<or> (a = NInf \<and> b = PInf) then NaN
      else if is_inf a then a
      else if is_inf b then b
      else if is_zero a \<and> is_zero b then (if a = NZero \<and> b = NZero then NZero else Fin 0)
      else if val a + val b = 0 then Fin 0
      else fl (val a + val b < 0) \<bar>val a + val b\<bar>)"

text \<open>\<^verbatim>\<open>a * b\<close>: zero times an infinity is NaN; the sign is the product of the signs.\<close>

definition js_mul :: "jsnum \<Rightarrow> jsnum \<Rightarrow> jsnum" where
  "js_mul a b =
     (if a = NaN \<or> b = NaN then NaN
      else if (is_inf a \<and> is_zero b) \<or> (is_zero a \<and> is_inf b) then NaN
      else if is_inf a \<or> is_inf b then (if neg a \<noteq> neg b then NInf else PInf)
      else fl (neg a \<noteq> neg b) (\<bar>val a\<bar> * \<bar>val b\<bar>))"

text \<open>
  \<^verbatim>\<open>a / b\<close>: a division by zero does not raise; it gives an infinity, or NaN for
  \<^verbatim>\<open>0 / 0\<close> and for an infinity over an infinity.
\<close>

definition js_div :: "jsnum \<Rightarrow> jsnum \<Rightarrow> jsnum" where
  "js_div a b =
     (if a = NaN \<or> b = NaN then NaN
      else if (is_inf a \<and> is_inf b) \<or> (is_zero a \<and> is_zero b) then NaN
      else if is_inf a \<or> is_zero b then (if neg a \<noteq> neg b then NInf else PInf)
      else if is_inf b then (if neg a \<noteq> neg b then NZero else Fin 0)
      else fl (neg a \<noteq> neg b) (\<bar>val a\<bar> / \<bar>val b\<bar>))"

text \<open>
  \<^verbatim>\<open>Math.min(a, b)\<close>: NaN if either argument is NaN; \<^verbatim>\<open>-0\<close> counts as smaller than
  \<^verbatim>\<open>+0\<close>.
\<close>

definition Math_min :: "jsnum \<Rightarrow> jsnum \<Rightarrow> jsnum" where
  "Math_min a b =
     (if a = NaN \<or> b = NaN then NaN
      else if is_zero a \<and> is_zero b then (if a = NZero \<or> b = NZero then NZero else Fin 0)
      else if js_lt b a then b else a)"


text \<open>\<^verbatim>\<open>a || b\<close> on optional strings: \<^verbatim>\<open>undefined\<close> and the empty string are falsy.\<close>

fun str_or :: "string option \<Rightarrow> string \<Rightarrow> string" where
  "str_or None d = d"
| "str_or (Some s) d = (if s = [] then d else s)"

section \<open>Life stages (types/index.ts, services/api.ts)\<close>

datatype LifeStage = DOG_PUPPY | DOG_ADULT | CAT_KITTEN | CAT_ADULT

text \<open>
  \<^verbatim>\<open>calculateLifeStage(species, age_months)\<close>; \<open>species\<close> is any string,
  \<open>age_months\<close> any number.
\<close>

definition calculateLifeStage :: "string \<Rightarrow> jsnum \<Rightarrow> LifeStage" where
  "calculateLifeStage species age_months =
     (if species = ''dog'' then
        (if js_lt age_months (Fin 12) then DOG_PUPPY else DOG_ADULT)
      else if species = ''cat'' then
        (if js_lt age_months (Fin 12) then CAT_KITTEN else CAT_ADULT)
      else DOG_ADULT)"

section \<open>AAFCO standards (constants/aafcoStandards.ts)\<close>

text \<open>The \<^verbatim>\<open>NutrientID\<close> constants.\<close>

definition ENERGY :: nat where "ENERGY = 1008"
definition PROTEIN :: nat where "PROTEIN = 1003"
definition CALCIUM :: nat where "CALCIUM = 1087"
definition PHOSPHORUS :: nat where "PHOSPHORUS = 1091"
definition FAT :: nat where "FAT = 1004"
definition CARBOHYDRATE :: nat where "CARBOHYDRATE = 1005"
definition WATER :: nat where "WATER = 1051"
definition FIBER :: nat where "FIBER = 1079"
definition IRON :: nat where "IRON = 1089"
definition ZINC :: nat where "ZINC = 1095"
definition COPPER :: nat where "COPPER = 1098"
definition MAGNESIUM :: nat where "MAGNESIUM = 1090"
definition POTASSIUM :: nat where "POTASSIUM = 1092"
definition SODIUM :: nat where "SODIUM = 1093"
definition SELENIUM :: nat where "SELENIUM = 1103"
definition VITAMIN_A :: nat where "VITAMIN_A = 1104"
definition VITAMIN_D :: nat where "VITAMIN_D = 1110"
definition VITAMIN_E :: nat where "VITAMIN_E = 1109"
definition VITAMIN_B1 :: nat where "VITAMIN_B1 = 1165"
definition VITAMIN_B12 :: nat where "VITAMIN_B12 = 1178"
definition RIBOFLAVIN :: nat where "RIBOFLAVIN = 1166"
definition OMEGA_6 :: nat where "OMEGA_6 = 1316"
definition OMEGA_3 :: nat where "OMEGA_3 = 1404"

text \<open>
  One entry of the table: \<^verbatim>\<open>{ min, max, unit, nutrient_id }\<close>. \<open>None\<close> is \<^verbatim>\<open>null\<close>
  (or an absent field); every entry of the table has a \<open>min\<close>, and the code that reads
  the entries still tests it for truthiness.
\<close>

record standard =
  min_val :: "jsnum option"
  max_val :: "jsnum option"
  unit :: string
  nutrient_id :: nat

text \<open>
  The object literal of each life stage, as the list of its properties in the order of
  the source (values per 1000 kcal of metabolizable energy). A decimal literal stands
  for the decimal it writes and a product of two literals for its exact value; the
  binary64 value of the source differs from it by the rounding of the last bit at most.
\<close>

definition AAFCO_DOG_ADULT :: "(nat \<times> standard) list" where
  "AAFCO_DOG_ADULT = [
    (PROTEIN, \<lparr>min_val = Some (Fin 45.0), max_val = None, unit = ''G'', nutrient_id = PROTEIN\<rparr>),
    (FAT, \<lparr>min_val = Some (Fin 13.8), max_val = None, unit = ''G'', nutrient_id = FAT\<rparr>),
    (ENERGY, \<lparr>min_val = Some (Fin 2000), max_val = None, unit = ''KCAL'', nutrient_id = ENERGY\<rparr>),
    (CALCIUM, \<lparr>min_val = Some (Fin (1.25 * 1000)), max_val = Some (Fin (6.25 * 1000)), unit = ''MG'', nutrient_id = CALCIUM\<rparr>),
    (PHOSPHORUS, \<lparr>min_val = Some (Fin (1.0 * 1000)), max_val = Some (Fin (4.0 * 1000)), unit = ''MG'', nutrient_id = PHOSPHORUS\<rparr>),
    (POTASSIUM, \<lparr>min_val = Some (Fin (1.5 * 1000)), max_val = None, unit = ''MG'', nutrient_id = POTASSIUM\<rparr>),
    (SODIUM, \<lparr>min_val = Some (Fin (0.2 * 1000)), max_val = None, unit = ''MG'', nutrient_id = SODIUM\<rparr>),
    (MAGNESIUM, \<lparr>min_val = Some (Fin (0.15 * 1000)), max_val = None, unit = ''MG'', nutrient_id = MAGNESIUM\<rparr>),
    (IRON, \<lparr>min_val = Some (Fin 10), max_val = None, unit = ''MG'', nutrient_id = IRON\<rparr>),
    (ZINC, \<lparr>min_val = Some (Fin 20), max_val = None, unit = ''MG'', nutrient_id = ZINC\<rparr>),
    (COPPER, \<lparr>min_val = Some (Fin 1.83), max_val = None, unit = ''MG'', nutrient_id = COPPER\<rparr>),
    (SELENIUM, \<lparr>min_val = Some (Fin (0.08 * 1000)), max_val = Some (Fin (0.5 * 1000)), unit = ''UG'', nutrient_id = SELENIUM\<rparr>),
    (VITAMIN_A, \<lparr>min_val = Some (Fin 1250), max_val = Some (Fin 62500), unit = ''IU'', nutrient_id = VITAMIN_A\<rparr>),
    (VITAMIN_E, \<lparr>min_val = Some (Fin (12.5 * 0.6774)), max_val = None, unit = ''MG'', nutrient_id = VITAMIN_E\<rparr>),
    (VITAMIN_D, \<lparr>min_val = Some (Fin 125), max_val = Some (Fin 750), unit = ''IU'', nutrient_id = VITAMIN_D\<rparr>),
    (VITAMIN_B1, \<lparr>min_val = Some (Fin 0.56), max_val = None, unit = ''MG'', nutrient_id = VITAMIN_B1\<rparr>),
    (VITAMIN_B12, \<lparr>min_val = Some (Fin (0.007 * 1000)), max_val = None, unit = ''UG'', nutrient_id = VITAMIN_B12\<rparr>),
    (RIBOFLAVIN, \<lparr>min_val = Some (Fin 1.3), max_val = None, unit = ''MG'', nutrient_id = RIBOFLAVIN\<rparr>),
    (OMEGA_6, \<lparr>min_val = Some (Fin 3.3), max_val = None, unit = ''G'', nutrient_id = OMEGA_6\<rparr>),
    (OMEGA_3, \<lparr>min_val = Some (Fin 0.2), max_val = None, unit = ''G'', nutrient_id = OMEGA_3\<rparr>)]"

definition AAFCO_DOG_PUPPY :: "(nat \<times> standard) list" where
  "AAFCO_DOG_PUPPY = [
    (PROTEIN, \<lparr>min_val = Some (Fin 30), max_val = None, unit = ''G'', nutrient_id = PROTEIN\<rparr>),
    (FAT, \<lparr>min_val = Some (Fin 21.3), max_val = None, unit = ''G'', nutrient_id = FAT\<rparr>),
    (CALCIUM, \<lparr>min_val = Some (Fin (3.0 * 1000)), max_val = Some (Fin (6.25 * 1000)), unit = ''MG'', nutrient_id = CALCIUM\<rparr>),
    (PHOSPHORUS, \<lparr>min_val = Some (Fin (2.5 * 1000)), max_val = Some (Fin (4.0 * 1000)), unit = ''MG'', nutrient_id = PHOSPHORUS\<rparr>),
    (POTASSIUM, \<lparr>min_val = Some (Fin (1.5 * 1000)), max_val = None, unit = ''MG'', nutrient_id = POTASSIUM\<rparr>),
    (SODIUM, \<lparr>min_val = Some (Fin (0.8 * 1000)), max_val = None, unit = ''MG'', nutrient_id = SODIUM\<rparr>),
    (MAGNESIUM, \<lparr>min_val = Some (Fin (0.14 * 1000)), max_val = None, unit = ''MG'', nutrient_id = MAGNESIUM\<rparr>),
    (IRON, \<lparr>min_val = Some (Fin 22), max_val = None, unit = ''MG'', nutrient_id = IRON\<rparr>),
    (ZINC, \<lparr>min_val = Some (Fin 25), max_val = None, unit = ''MG'', nutrient_id = ZINC\<rparr>),
    (COPPER, \<lparr>min_val = Some (Fin 3.1), max_val = None, unit = ''MG'', nutrient_id = COPPER\<rparr>),
    (SELENIUM, \<lparr>min_val = Some (Fin (0.5 * 1000)), max_val = None, unit = ''UG'', nutrient_id = SELENIUM\<rparr>),
    (VITAMIN_A, \<lparr>min_val = Some (Fin 1250), max_val = Some (Fin 62500), unit = ''IU'', nutrient_id = VITAMIN_A\<rparr>),
    (VITAMIN_D, \<lparr>min_val = Some (Fin 125), max_val = Some (Fin 750), unit = ''IU'', nutrient_id = VITAMIN_D\<rparr>),
    (VITAMIN_E, \<lparr>min_val = Some (Fin 12.5), max_val = None, unit = ''MG'', nutrient_id = VITAMIN_E\<rparr>),
    (VITAMIN_B1, \<lparr>min_val = Some (Fin 0.56), max_val = None, unit = ''MG'', nutrient_id = VITAMIN_B1\<rparr>),
    (VITAMIN_B12, \<lparr>min_val = Some (Fin (0.007 * 1000)), max_val = None, unit = ''UG'', nutrient_id = VITAMIN_B12\<rparr>),
    (RIBOFLAVIN, \<lparr>min_val = Some (Fin 1.3), max_val = None, unit = ''MG'', nutrient_id = RIBOFLAVIN\<rparr>),
    (OMEGA_6, \<lparr>min_val = Some (Fin 3.3), max_val = None, unit = ''G'', nutrient_id = OMEGA_6\<rparr>),
    (OMEGA_3, \<lparr>min_val = Some (Fin 0.2), max_val = None, unit = ''G'', nutrient_id = OMEGA_3\<rparr>)]"

definition AAFCO_CAT_ADULT :: "(nat \<times> standard) list" where
  "AAFCO_CAT_ADULT = [
    (PROTEIN, \<lparr>min_val = Some (Fin 63.0), max_val = None, unit = ''G'', nutrient_id = PROTEIN\<rparr>),
    (FAT, \<lparr>min_val = Some (Fin 22.5), max_val = None, unit = ''G'', nutrient_id = FAT\<rparr>),
    (ENERGY, \<lparr>min_val = Some (Fin 2000), max_val = None, unit = ''KCAL'', nutrient_id = ENERGY\<rparr>),
    (CALCIUM, \<lparr>min_val = Some (Fin (1.44 * 1000)), max_val = Some (Fin (6.25 * 1000)), unit = ''MG'', nutrient_id = CALCIUM\<rparr>),
    (PHOSPHORUS, \<lparr>min_val = Some (Fin (1.25 * 1000)), max_val = Some (Fin (4.0 * 1000)), unit = ''MG'', nutrient_id = PHOSPHORUS\<rparr>),
    (POTASSIUM, \<lparr>min_val = Some (Fin (1.67 * 1000)), max_val = None, unit = ''MG'', nutrient_id = POTASSIUM\<rparr>),
    (SODIUM, \<lparr>min_val = Some (Fin (0.21 * 1000)), max_val = None, unit = ''MG'', nutrient_id = SODIUM\<rparr>),
    (MAGNESIUM, \<lparr>min_val = Some (Fin (0.1 * 1000)), max_val = None, unit = ''MG'', nutrient_id = MAGNESIUM\<rparr>),
    (IRON, \<lparr>min_val = Some (Fin 20), max_val = None, unit = ''MG'', nutrient_id = IRON\<rparr>),
    (ZINC, \<lparr>min_val = Some (Fin 18.75), max_val = None, unit = ''MG'', nutrient_id = ZINC\<rparr>),
    (COPPER, \<lparr>min_val = Some (Fin 1.25), max_val = None, unit = ''MG'', nutrient_id = COPPER\<rparr>),
    (SELENIUM, \<lparr>min_val = Some (Fin (0.067 * 1000)), max_val = Some (Fin (0.5 * 1000)), unit = ''UG'', nutrient_id = SELENIUM\<rparr>),
    (VITAMIN_A, \<lparr>min_val = Some (Fin 2083), max_val = Some (Fin 333333), unit = ''IU'', nutrient_id = VITAMIN_A\<rparr>),
    (VITAMIN_E, \<lparr>min_val = Some (Fin 9.58), max_val = None, unit = ''MG'', nutrient_id = VITAMIN_E\<rparr>),
    (VITAMIN_D, \<lparr>min_val = Some (Fin 62.5), max_val = Some (Fin 1667), unit = ''IU'', nutrient_id = VITAMIN_D\<rparr>),
    (VITAMIN_B1, \<lparr>min_val = Some (Fin 1.4), max_val = None, unit = ''MG'', nutrient_id = VITAMIN_B1\<rparr>),
    (VITAMIN_B12, \<lparr>min_val = Some (Fin (0.0056 * 1000)), max_val = None, unit = ''UG'', nutrient_id = VITAMIN_B12\<rparr>),
    (RIBOFLAVIN, \<lparr>min_val = Some (Fin 1.0), max_val = None, unit = ''MG'', nutrient_id = RIBOFLAVIN\<rparr>),
    (OMEGA_6, \<lparr>min_val = Some (Fin 1.4), max_val = None, unit = ''G'', nutrient_id = OMEGA_6\<rparr>),
    (OMEGA_3, \<lparr>min_val = Some (Fin 0.06), max_val = None, unit = ''G'', nutrient_id = OMEGA_3\<rparr>)]"

definition AAFCO_CAT_KITTEN :: "(nat \<times> standard) list" where
  "AAFCO_CAT_KITTEN = [
    (PROTEIN, \<lparr>min_val = Some (Fin 75.0), max_val = None, unit = ''G'', nutrient_id = PROTEIN\<rparr>),
    (FAT, \<lparr>min_val = Some (Fin 22.5), max_val = None, unit = ''G'', nutrient_id = FAT\<rparr>),
    (CALCIUM, \<lparr>min_val = Some (Fin (2.4 * 1000)), max_val = Some (Fin (6.25 * 1000)), unit = ''MG'', nutrient_id = CALCIUM\<rparr>),
    (PHOSPHORUS, \<lparr>min_val = Some (Fin (2.0 * 1000)), max_val = Some (Fin (4.0 * 1000)), unit = ''MG'', nutrient_id = PHOSPHORUS\<rparr>),
    (POTASSIUM, \<lparr>min_val = Some (Fin (1.67 * 1000)), max_val = None, unit = ''MG'', nutrient_id = POTASSIUM\<rparr>),
    (SODIUM, \<lparr>min_val = Some (Fin (0.67 * 1000)), max_val = None, unit = ''MG'', nutrient_id = SODIUM\<rparr>),
    (MAGNESIUM, \<lparr>min_val = Some (Fin (0.1 * 1000)), max_val = None, unit = ''MG'', nutrient_id = MAGNESIUM\<rparr>),
    (IRON, \<lparr>min_val = Some (Fin 20), max_val = None, unit = ''MG'', nutrient_id = IRON\<rparr>),
    (ZINC, \<lparr>min_val = Some (Fin 18.75), max_val = None, unit = ''MG'', nutrient_id = ZINC\<rparr>),
    (COPPER, \<lparr>min_val = Some (Fin 1.67), max_val = None, unit = ''MG'', nutrient_id = COPPER\<rparr>),
    (SELENIUM, \<lparr>min_val = Some (Fin (0.083 * 1000)), max_val = None, unit = ''UG'', nutrient_id = SELENIUM\<rparr>),
    (VITAMIN_A, \<lparr>min_val = Some (Fin 2083), max_val = Some (Fin 333333), unit = ''IU'', nutrient_id = VITAMIN_A\<rparr>),
    (VITAMIN_E, \<lparr>min_val = Some (Fin 9.58), max_val = None, unit = ''MG'', nutrient_id = VITAMIN_E\<rparr>),
    (VITAMIN_D, \<lparr>min_val = Some (Fin 62.5), max_val = Some (Fin 1667), unit = ''IU'', nutrient_id = VITAMIN_D\<rparr>),
    (VITAMIN_B1, \<lparr>min_val = Some (Fin 1.4), max_val = None, unit = ''MG'', nutrient_id = VITAMIN_B1\<rparr>),
    (VITAMIN_B12, \<lparr>min_val = Some (Fin (0.0056 * 1000)), max_val = None, unit = ''UG'', nutrient_id = VITAMIN_B12\<rparr>),
    (RIBOFLAVIN, \<lparr>min_val = Some (Fin 1.0), max_val = None, unit = ''MG'', nutrient_id = RIBOFLAVIN\<rparr>),
    (OMEGA_6, \<lparr>min_val = Some (Fin 1.4), max_val = None, unit = ''G'', nutrient_id = OMEGA_6\<rparr>),
    (OMEGA_3, \<lparr>min_val = Some (Fin 0.06), max_val = None, unit = ''G'', nutrient_id = OMEGA_3\<rparr>)]"


definition AAFCO_STANDARDS :: "LifeStage \<Rightarrow> (nat \<times> standard) list" where
  "AAFCO_STANDARDS ls =
     (case ls of
        DOG_ADULT \<Rightarrow> AAFCO_DOG_ADULT
      | DOG_PUPPY \<Rightarrow> AAFCO_DOG_PUPPY
      | CAT_ADULT \<Rightarrow> AAFCO_CAT_ADULT
      | CAT_KITTEN \<Rightarrow> AAFCO_CAT_KITTEN)"

text \<open>\<^verbatim>\<open>AAFCO_STANDARDS[ls][id]\<close>: \<open>None\<close> is \<^verbatim>\<open>undefined\<close>.\<close>

definition standard_of :: "LifeStage \<Rightarrow> nat \<Rightarrow> standard option" where
  "standard_of ls nid = map_of (AAFCO_STANDARDS ls) nid"

section \<open>Recipe results (types/index.ts)\<close>

text \<open>
  Field names are those of the interfaces. Where two interfaces share a field name, the
  fields of the smaller one carry a prefix: \<open>wa_\<close> (WeightAnalysis), \<open>v_\<close> (a violation),
  \<open>req_\<close> (RecipeGenerationRequest), \<open>api_\<close> (the request body), \<open>b_\<close> (the response
  payload), \<open>n_\<close>, \<open>c_\<close>, \<open>r_\<close>, \<open>m_\<close> (the rows built by the hook).
\<close>

datatype Status = Success | Failed | Error

record RecipeIngredient =
  fdc_id :: jsnum
  description :: string
  common_name :: "string option"
  amount_g :: jsnum
  percentage :: jsnum
  cost :: "jsnum option"
  calories :: "jsnum option"
  category :: "string option"

record NutritionAnalysis =
  total_calories_kcal :: jsnum
  protein_g :: jsnum
  fat_g :: jsnum
  carbohydrate_g :: jsnum
  fiber_g :: "jsnum option"
  calcium_mg :: "jsnum option"
  phosphorus_mg :: "jsnum option"

record violation =
  v_nutrient :: string
  v_required_min :: "jsnum option"
  v_required_max :: "jsnum option"
  v_actual :: jsnum
  v_unit :: string
  v_status :: "string option"

record AAFCOAnalysis =
  compliant :: bool
  violations :: "violation list option"
  score :: jsnum
  recommendations :: "string list option"

record EfficiencyMetrics =
  caloric_density_kcal_per_g :: jsnum
  cost_efficiency_cost_per_kcal :: jsnum
  ingredient_count :: jsnum
  weight_category :: string

record CostAnalysis =
  total_cost :: jsnum
  cost_per_kg :: jsnum

record WeightAnalysis =
  wa_optimization_mode :: string
  wa_weight_category :: string
  wa_weight_reasonable :: bool
  wa_baseline_weight_g :: "jsnum option"
  wa_target_weight_g :: "jsnum option"
  wa_final_weight_g :: "jsnum option"
  wa_adjustment_success :: "bool option"
  wa_fallback_reason :: "string option"

record OptimizationStrategy =
  optimization_strategy_name :: string
  primary_mode :: string
  weight_preference_provided :: bool
  strategy_description :: string

record UserGuidance =
  weight_achievement :: jsnum
  weight_achievement_category :: string
  next_steps :: "string list"

record RecipeData =
  pet_id :: jsnum
  total_weight_g :: jsnum
  target_calories :: jsnum
  actual_calories :: jsnum
  energy_accuracy :: jsnum
  ingredients :: "RecipeIngredient list"

text \<open>
  \<open>cost_analysis\<close> is declared as always present; the report still tests it before it
  prints the economic table, so the field is optional here.
\<close>

record Analysis =
  nutrition :: NutritionAnalysis
  efficiency :: EfficiencyMetrics
  aafco_compliance :: AAFCOAnalysis
  cost_analysis :: "CostAnalysis option"
  weight_analysis :: "WeightAnalysis option"
  optimization_strategy :: "OptimizationStrategy option"
  user_guidance :: "UserGuidance option"

text \<open>\<^verbatim>\<open>status: 'Success' | 'Failed' | 'Error'\<close>\<close>

record RecipeResult =
  status :: Status
  error :: "string option"
  recipe :: RecipeData
  analysis :: Analysis

section \<open>The data hook (hooks/useRecipeData.ts)\<close>

record NutrientDensity =
  protein :: jsnum
  fat :: jsnum
  carbohydrate :: jsnum
  fiber :: jsnum

text \<open>\<^verbatim>\<open>nutrientDensity\<close>: amounts per 1000 kcal of the achieved calories.\<close>

definition nutrientDensity :: "RecipeResult \<Rightarrow> NutrientDensity" where
  "nutrientDensity r =
     (let factor = js_div (Fin 1000) (actual_calories (recipe r)) in
      \<lparr>protein = js_mul (protein_g (nutrition (analysis r))) factor,
       fat = js_mul (fat_g (nutrition (analysis r))) factor,
       carbohydrate = js_mul (carbohydrate_g (nutrition (analysis r))) factor,
       fiber = js_mul (or_zero (fiber_g (nutrition (analysis r)))) factor\<rparr>)"




record main_nutrient =
  n_id :: nat
  n_name :: string
  n_actual :: jsnum

text \<open>The \<^verbatim>\<open>mainNutrients\<close> array of \<^verbatim>\<open>complianceData\<close>.\<close>

definition mainNutrients :: "NutrientDensity \<Rightarrow> main_nutrient list" where
  "mainNutrients nd =
     [\<lparr>n_id = PROTEIN, n_name = ''Protein'', n_actual = protein nd\<rparr>,
      \<lparr>n_id = FAT, n_name = ''Fat'', n_actual = fat nd\<rparr>,
      \<lparr>n_id = CALCIUM, n_name = ''Calcium'', n_actual = Fin 1250\<rparr>,
      \<lparr>n_id = PHOSPHORUS, n_name = ''Phosphorus'', n_actual = Fin 1200\<rparr>,
      \<lparr>n_id = IRON, n_name = ''Iron'', n_actual = Fin 12\<rparr>]"

datatype ComplianceStatus = DEFICIENT | ADEQUATE | EXCESSIVE

text \<open>
  The classification inside the loop:
  \<^verbatim>\<open>standard.min && actual < standard.min\<close>, else
  \<^verbatim>\<open>standard.max && actual > standard.max\<close>.
\<close>

definition status_of :: "jsnum \<Rightarrow> standard \<Rightarrow> ComplianceStatus" where
  "status_of a s =
     (if truthy_opt (min_val s) \<and> (case min_val s of Some m \<Rightarrow> js_lt a m | None \<Rightarrow> False)
      then DEFICIENT
      else if truthy_opt (max_val s) \<and> (case max_val s of Some m \<Rightarrow> js_gt a m | None \<Rightarrow> False)
      then EXCESSIVE
      else ADEQUATE)"

record compliance_item =
  c_nutrient :: string
  c_actual :: jsnum
  c_required_min :: "jsnum option"
  c_required_max :: "jsnum option"
  c_unit :: string
  c_status :: ComplianceStatus

text \<open>
  The \<^verbatim>\<open>forEach\<close> over \<^verbatim>\<open>mainNutrients\<close>: a nutrient without a standard is skipped,
  every other one pushes a row onto \<^verbatim>\<open>complianceArray\<close>.
\<close>

fun compliance_loop ::
  "LifeStage \<Rightarrow> main_nutrient list \<Rightarrow> compliance_item list \<Rightarrow> compliance_item list" where
  "compliance_loop ls [] complianceArray = complianceArray"
| "compliance_loop ls (nutrient # rest) complianceArray =
     (case standard_of ls (n_id nutrient) of
        None \<Rightarrow> compliance_loop ls rest complianceArray
      | Some s \<Rightarrow>
          compliance_loop ls rest
            (complianceArray @
             [\<lparr>c_nutrient = n_name nutrient, c_actual = n_actual nutrient,
               c_required_min = min_val s, c_required_max = max_val s,
               c_unit = unit s, c_status = status_of (n_actual nutrient) s\<rparr>]))"

text \<open>
  \<^verbatim>\<open>complianceData\<close>, for the life stage of \<^verbatim>\<open>petInfo\<close> (which is \<open>DOG_ADULT\<close> as long
  as no pet details are loaded) and the nutrient density.
\<close>

definition complianceData :: "LifeStage \<Rightarrow> NutrientDensity \<Rightarrow> compliance_item list" where
  "complianceData life_stage nd = compliance_loop life_stage (mainNutrients nd) []"

record radar_item =
  r_nutrient :: string
  r_value :: jsnum
  r_fullMark :: jsnum
  r_status :: ComplianceStatus

text \<open>One row of \<^verbatim>\<open>radarData\<close>.\<close>

definition radar_of :: "compliance_item \<Rightarrow> radar_item" where
  "radar_of item =
     \<lparr>r_nutrient = c_nutrient item,
      r_value =
        (case c_required_min item of
           Some m \<Rightarrow>
             (if truthy m
              then Math_min (js_mul (js_div (c_actual item) m) (Fin 100)) (Fin 150)
              else Fin 100)
         | None \<Rightarrow> Fin 100),
      r_fullMark = Fin 150,
      r_status = c_status item\<rparr>"

definition radarData :: "compliance_item list \<Rightarrow> radar_item list" where
  "radarData cd = map radar_of cd"

section \<open>The report (components/RecipeResult.tsx)\<close>





section \<open>Recipe generation (services/api.ts)\<close>

record RecipeGenerationRequest =
  req_pet_id :: jsnum
  req_target_calories :: "jsnum option"
  req_preferred_weight_g :: "jsnum option"

record api_request =
  api_pet_id :: jsnum
  api_target_calories :: "jsnum option"
  api_preferred_weight_g :: "jsnum option"

text \<open>
  What the \<^verbatim>\<open>catch\<close> block can receive: an error that \<^verbatim>\<open>axios.isAxiosError\<close>
  recognises, with \<^verbatim>\<open>error.response?.data?.detail\<close> (a string, as the \<open>error\<close> field of
  the result is declared) and \<^verbatim>\<open>error.message\<close>, or any other \<^verbatim>\<open>Error\<close> with its
  message.
\<close>

datatype js_error = AxiosError "string option" string | PlainError string

text \<open>
  \<^verbatim>\<open>response.data\<close> before it is validated: \<open>recipe\<close> and \<open>analysis\<close> may be missing.
\<close>

record backend_response =
  b_status :: Status
  b_error :: "string option"
  b_recipe :: "RecipeData option"
  b_analysis :: "Analysis option"

text \<open>The awaited \<^verbatim>\<open>apiClient.post\<close>: it resolves with a response or rejects.\<close>

datatype post_outcome = Resolved backend_response | Rejected js_error

definition apiRequest :: "RecipeGenerationRequest \<Rightarrow> api_request" where
  "apiRequest request =
     \<lparr>api_pet_id = req_pet_id request,
      api_target_calories =
        (if truthy_opt (req_target_calories request) then req_target_calories request else None),
      api_preferred_weight_g =
        (if truthy_opt (req_preferred_weight_g request) then req_preferred_weight_g request
         else None)\<rparr>"

text \<open>The body of the \<^verbatim>\<open>try\<close> block: \<open>Inl\<close> is a throw.\<close>

definition generateRecipe_try :: "post_outcome \<Rightarrow> js_error + RecipeResult" where
  "generateRecipe_try outcome =
     (case outcome of
        Rejected e \<Rightarrow> Inl e
      | Resolved d \<Rightarrow>
          (if b_status d = Error
           then Inl (PlainError (str_or (b_error d) ''Recipe generation failed''))
           else
             (case (b_recipe d, b_analysis d) of
                (Some rc, Some an) \<Rightarrow>
                  Inr \<lparr>status = b_status d, error = b_error d, recipe = rc, analysis = an\<rparr>
              | _ \<Rightarrow> Inl (PlainError ''Recipe data structure is incomplete''))))"

text \<open>The result built in the \<^verbatim>\<open>catch\<close> block for an Axios error.\<close>

definition error_result :: "RecipeGenerationRequest \<Rightarrow> string option \<Rightarrow> string \<Rightarrow> RecipeResult" where
  "error_result request detail message =
     \<lparr>status = Error,
      error = Some (str_or detail (str_or (Some message) ''Network error'')),
      recipe =
        \<lparr>pet_id = req_pet_id request,
         total_weight_g = Fin 0,
         target_calories = or_zero (req_target_calories request),
         actual_calories = Fin 0,
         energy_accuracy = Fin 0,
         ingredients = []\<rparr>,
      analysis =
        \<lparr>nutrition =
           \<lparr>total_calories_kcal = Fin 0, protein_g = Fin 0, fat_g = Fin 0,
            carbohydrate_g = Fin 0, fiber_g = Some (Fin 0),
            calcium_mg = None, phosphorus_mg = None\<rparr>,
         efficiency =
           \<lparr>caloric_density_kcal_per_g = Fin 0, cost_efficiency_cost_per_kcal = Fin 0,
            ingredient_count = Fin 0, weight_category = ''Unknown''\<rparr>,
         aafco_compliance =
           \<lparr>compliant = False, violations = Some [], score = Fin 0,
            recommendations = None\<rparr>,
         cost_analysis = Some \<lparr>total_cost = Fin 0, cost_per_kg = Fin 0\<rparr>,
         weight_analysis =
           Some \<lparr>wa_optimization_mode = ''unknown'', wa_weight_category = ''Unknown'',
                 wa_weight_reasonable = False, wa_baseline_weight_g = None,
                 wa_target_weight_g = None, wa_final_weight_g = None,
                 wa_adjustment_success = None, wa_fallback_reason = None\<rparr>,
         optimization_strategy = None,
         user_guidance = None\<rparr>\<rparr>"

text \<open>
  \<^verbatim>\<open>recipeAPI.generateRecipe(request)\<close>, with the HTTP client as a parameter. \<open>Inl\<close> is
  a rejected promise, \<open>Inr\<close> the result the promise resolves to.
\<close>

definition generateRecipe ::
  "(api_request \<Rightarrow> post_outcome) \<Rightarrow> RecipeGenerationRequest \<Rightarrow> js_error + RecipeResult" where
  "generateRecipe post request =
     (case generateRecipe_try (post (apiRequest request)) of
        Inr r \<Rightarrow> Inr r
      | Inl err \<Rightarrow>
          (case err of
             AxiosError detail message \<Rightarrow> Inr (error_result request detail message)
           | PlainError _ \<Rightarrow> Inl err))"

section \<open>The HTTP client (services/api.ts)\<close>

text \<open>\<^verbatim>\<open>xs.join(sep)\<close> on strings.\<close>

fun join :: "string \<Rightarrow> string list \<Rightarrow> string" where
  "join sep [] = []"
| "join sep [x] = x"
| "join sep (x # y # ys) = x @ sep @ join sep (y # ys)"

text \<open>
  \<^verbatim>\<open>error.response.data.detail\<close> as the backend sends it: a text, or the list of
  validation items of a 422 answer, each with an optional \<^verbatim>\<open>loc\<close> path and a \<^verbatim>\<open>msg\<close>.
\<close>

record validation_item =
  loc :: "string list option"
  msg :: string

datatype detail = DetailText string | DetailItems "validation_item list"

text \<open>
  A failed request as the response interceptor receives it: whether
  \<^verbatim>\<open>axios.isAxiosError\<close> holds of it, \<^verbatim>\<open>error.response?.status\<close>,
  \<^verbatim>\<open>error.response?.data?.message\<close>, \<^verbatim>\<open>error.response?.data?.detail\<close> and
  \<^verbatim>\<open>error.message\<close>.
\<close>

record transport_error =
  te_isAxiosError :: bool
  te_status :: "nat option"
  te_data_message :: "string option"
  te_data_detail :: "detail option"
  te_message :: string

text \<open>Truthiness of a detail: an array is truthy, a text unless it is empty.\<close>

fun detail_truthy :: "detail option \<Rightarrow> bool" where
  "detail_truthy None = False"
| "detail_truthy (Some (DetailText t)) = (t \<noteq> [])"
| "detail_truthy (Some (DetailItems _)) = True"

text \<open>
  The \<^verbatim>\<open>fieldErrors\<close> of a 422 answer. A detail that is not an array is wrapped into
  one; a text has neither \<^verbatim>\<open>loc\<close> nor \<^verbatim>\<open>msg\<close>.
\<close>

fun fieldErrors :: "detail \<Rightarrow> string" where
  "fieldErrors (DetailText t) = ''unknown: undefined''"
| "fieldErrors (DetailItems ds) =
     join ''; ''
       (map (\<lambda>d. (case loc d of Some l \<Rightarrow> join ''.'' l | None \<Rightarrow> ''unknown'') @ '': '' @ msg d) ds)"

text \<open>The message of \<^verbatim>\<open>new Error(detail)\<close>: the detail converted to a string.\<close>

fun detail_string :: "detail \<Rightarrow> string" where
  "detail_string (DetailText t) = t"
| "detail_string (DetailItems ds) = join '','' (map (\<lambda>d. ''[object Object]'') ds)"

text \<open>
  \<^verbatim>\<open>error.response?.data?.message || error.response?.data?.detail || error.message ||
  'Network error'\<close>, as the message of the new error.
\<close>

definition errorMessage :: "transport_error \<Rightarrow> string" where
  "errorMessage e =
     (case te_data_message e of
        Some m \<Rightarrow>
          (if m \<noteq> [] then m
           else if detail_truthy (te_data_detail e)
           then (case te_data_detail e of Some d \<Rightarrow> detail_string d | None \<Rightarrow> [])
           else str_or (Some (te_message e)) ''Network error'')
      | None \<Rightarrow>
          (if detail_truthy (te_data_detail e)
           then (case te_data_detail e of Some d \<Rightarrow> detail_string d | None \<Rightarrow> [])
           else str_or (Some (te_message e)) ''Network error''))"

text \<open>
  The error handler of \<^verbatim>\<open>apiClient.interceptors.response\<close>: both of its exits are
  \<^verbatim>\<open>Promise.reject(new Error(...))\<close>.
\<close>

definition response_error_handler :: "transport_error \<Rightarrow> js_error" where
  "response_error_handler e =
     (if te_isAxiosError e \<and> te_status e = Some 422 then
        PlainError
          (if detail_truthy (te_data_detail e)
           then ''Validation failed: '' @
                (case te_data_detail e of Some d \<Rightarrow> fieldErrors d | None \<Rightarrow> [])
           else ''Data validation failed'')
      else PlainError (errorMessage e))"

text \<open>What the transport below the interceptors does with a request.\<close>

datatype transport_outcome = TransportOk backend_response | TransportError transport_error

text \<open>
  \<^verbatim>\<open>apiClient.post\<close>: the request interceptor passes the request on, the response
  interceptor passes a response on and sends every failure through its error handler.
\<close>

definition apiClient_post ::
  "(api_request \<Rightarrow> transport_outcome) \<Rightarrow> api_request \<Rightarrow> post_outcome" where
  "apiClient_post transport rq =
     (case transport rq of
        TransportOk d \<Rightarrow> Resolved d
      | TransportError e \<Rightarrow> Rejected (response_error_handler e))"

section \<open>Properties stated over the model\<close>

text \<open>
  The table invariant as a predicate that can be evaluated on each entry: the minimum
  is a positive finite number and, when a maximum is present, it is a finite number not
  below the minimum.
\<close>

fun max_ok :: "real \<Rightarrow> jsnum option \<Rightarrow> bool" where
  "max_ok m None = True"
| "max_ok m (Some (Fin M)) = (m \<le> M)"
| "max_ok m (Some _) = False"

fun min_ok :: "jsnum option \<Rightarrow> jsnum option \<Rightarrow> bool" where
  "min_ok (Some (Fin m)) mx = (0 < m \<and> max_ok m mx)"
| "min_ok _ _ = False"

definition standard_ok :: "standard \<Rightarrow> bool" where
  "standard_ok s = min_ok (min_val s) (max_val s)"

text \<open>
  The classification in the words of the specification: DEFICIENT if a minimum is
  defined and the actual value is strictly below it; otherwise EXCESSIVE if a maximum is
  defined and the actual value is strictly above it; otherwise ADEQUATE.
\<close>

definition classify :: "jsnum \<Rightarrow> jsnum option \<Rightarrow> jsnum option \<Rightarrow> ComplianceStatus" where
  "classify a mn mx =
     (if (case mn of Some m \<Rightarrow> js_lt a m | None \<Rightarrow> False) then DEFICIENT
      else if (case mx of Some m \<Rightarrow> js_gt a m | None \<Rightarrow> False) then EXCESSIVE
      else ADEQUATE)"

text \<open>
  A successful result used in the examples: 800 kcal achieved for a target of 1000 kcal,
  400 g, a cost of 100, and the given protein, fat, carbohydrate and fiber grams.
\<close>

definition sample_result :: "jsnum \<Rightarrow> jsnum \<Rightarrow> jsnum \<Rightarrow> jsnum option \<Rightarrow> RecipeResult" where
  "sample_result p f c fb =
     \<lparr>status = Success, error = None,
      recipe =
        \<lparr>pet_id = Fin 1, total_weight_g = Fin 400, target_calories = Fin 1000,
         actual_calories = Fin 800, energy_accuracy = Fin 80, ingredients = []\<rparr>,
      analysis =
        \<lparr>nutrition =
           \<lparr>total_calories_kcal = Fin 800, protein_g = p, fat_g = f, carbohydrate_g = c,
            fiber_g = fb, calcium_mg = None, phosphorus_mg = None\<rparr>,
         efficiency =
           \<lparr>caloric_density_kcal_per_g = Fin 2, cost_efficiency_cost_per_kcal = Fin 0.125,
            ingredient_count = Fin 0, weight_category = ''Normal''\<rparr>,
         aafco_compliance =
           \<lparr>compliant = True, violations = Some [], score = Fin 100, recommendations = None\<rparr>,
         cost_analysis = Some \<lparr>total_cost = Fin 100, cost_per_kg = Fin 250\<rparr>,
         weight_analysis = None, optimization_strategy = None, user_guidance = None\<rparr>\<rparr>"

text \<open>
  Inputs of the examples for recipe generation: an HTTP client whose request always has
  the given outcome, a request, a backend response with the status \<open>Failed\<close> and one with
  the status \<open>Error\<close>.
\<close>

definition client_returning :: "post_outcome \<Rightarrow> api_request \<Rightarrow> post_outcome" where
  "client_returning outcome rq = outcome"

definition sample_request :: RecipeGenerationRequest where
  "sample_request =
     \<lparr>req_pet_id = Fin 1, req_target_calories = Some (Fin 1000), req_preferred_weight_g = None\<rparr>"

definition failed_response :: backend_response where
  "failed_response =
     \<lparr>b_status = Failed, b_error = None,
      b_recipe = Some (recipe (sample_result (Fin 40) (Fin 16) (Fin 60) None)),
      b_analysis = Some (analysis (sample_result (Fin 40) (Fin 16) (Fin 60) None))\<rparr>"

definition error_response :: backend_response where
  "error_response =
     \<lparr>b_status = Error, b_error = Some ''No feasible solution'',
      b_recipe = None, b_analysis = None\<rparr>"

text \<open>The successful result with other calories, weight, cost and protein.\<close>

definition sample_result_at :: "jsnum \<Rightarrow> jsnum \<Rightarrow> jsnum \<Rightarrow> jsnum \<Rightarrow> RecipeResult" where
  "sample_result_at kcal weight price p =
     (sample_result p (Fin 16) (Fin 60) None)
       \<lparr>recipe :=
          \<lparr>pet_id = Fin 1, total_weight_g = weight, target_calories = Fin 1000,
           actual_calories = kcal, energy_accuracy = Fin 80, ingredients = []\<rparr>,
        analysis :=
          (analysis (sample_result p (Fin 16) (Fin 60) None))
            \<lparr>cost_analysis := Some \<lparr>total_cost = price, cost_per_kg = Fin 250\<rparr>\<rparr>\<rparr>"

text \<open>
  A transport with a fixed outcome, a request that times out and a request answered
  with the HTTP status 500 and a detail.
\<close>

definition transport_returning :: "transport_outcome \<Rightarrow> api_request \<Rightarrow> transport_outcome" where
  "transport_returning outcome rq = outcome"

definition timeout_error :: transport_error where
  "timeout_error =
     \<lparr>te_isAxiosError = True, te_status = None, te_data_message = None,
      te_data_detail = None, te_message = ''timeout of 30000ms exceeded''\<rparr>"

definition server_error :: transport_error where
  "server_error =
     \<lparr>te_isAxiosError = True, te_status = Some 500, te_data_message = None,
      te_data_detail = Some (DetailText ''No feasible solution''),
      te_message = ''Request failed with status code 500''\<rparr>"

section \<open>Proofs\<close>

lemmas NutrientID_defs =
  ENERGY_def PROTEIN_def CALCIUM_def PHOSPHORUS_def FAT_def CARBOHYDRATE_def WATER_def
  FIBER_def IRON_def ZINC_def COPPER_def MAGNESIUM_def POTASSIUM_def SODIUM_def
  SELENIUM_def VITAMIN_A_def VITAMIN_D_def VITAMIN_E_def VITAMIN_B1_def VITAMIN_B12_def
  RIBOFLAVIN_def OMEGA_6_def OMEGA_3_def

lemmas cmp_defs = js_lt_def js_gt_def js_le_def js_ge_def val_def

lemmas num_defs = js_add_def js_mul_def js_div_def fl_def round_mag_def round_even_def
  pow2_def expo_def neg_def val_def is_inf_def is_zero_def Let_def bit_length.simps

subsection \<open>Life stage\<close>

lemma js_ge_not_lt: "js_ge a b \<Longrightarrow> \<not> js_lt a b"
  by (auto simp: js_ge_def js_le_def js_lt_def split: if_splits)
text \<open>
  C10: \<^verbatim>\<open>calculateLifeStage\<close> returns \<open>DOG_PUPPY\<close> for a dog younger than 12 months,
  \<open>DOG_ADULT\<close> for a dog of 12 months or more, \<open>CAT_KITTEN\<close> for a cat younger than 12
  months, \<open>CAT_ADULT\<close> for a cat of 12 months or more, and \<open>DOG_ADULT\<close> for every species
  string other than \<^verbatim>\<open>'dog'\<close> and \<^verbatim>\<open>'cat'\<close>.
\<close>

theorem calculateLifeStage_cases:
  "(js_lt age (Fin 12) \<longrightarrow> calculateLifeStage ''dog'' age = DOG_PUPPY) \<and>
   (js_ge age (Fin 12) \<longrightarrow> calculateLifeStage ''dog'' age = DOG_ADULT) \<and>
   (js_lt age (Fin 12) \<longrightarrow> calculateLifeStage ''cat'' age = CAT_KITTEN) \<and>
   (js_ge age (Fin 12) \<longrightarrow> calculateLifeStage ''cat'' age = CAT_ADULT) \<and>
   (species \<noteq> ''dog'' \<and> species \<noteq> ''cat'' \<longrightarrow> calculateLifeStage species age = DOG_ADULT)"
  by (simp add: calculateLifeStage_def js_ge_not_lt)

theorem calculateLifeStage_witness:
  "js_lt (Fin 6) (Fin 12) \<and> calculateLifeStage ''dog'' (Fin 6) = DOG_PUPPY \<and>
   calculateLifeStage ''cat'' (Fin 6) = CAT_KITTEN \<and>
   js_ge (Fin 12) (Fin 12) \<and> calculateLifeStage ''dog'' (Fin 12) = DOG_ADULT \<and>
   calculateLifeStage ''cat'' (Fin 12) = CAT_ADULT \<and>
   ''bird'' \<noteq> ''dog'' \<and> ''bird'' \<noteq> ''cat'' \<and> calculateLifeStage ''bird'' (Fin 6) = DOG_ADULT"
  using calculateLifeStage_cases [of "Fin 6" "''bird''"]
        calculateLifeStage_cases [of "Fin 12" "''bird''"]
  by (simp add: cmp_defs)
subsection \<open>The standards table\<close>

text \<open>
  No nutrient occurs twice in an object literal, so the first entry that \<open>map_of\<close> finds
  for a key is the only one.
\<close>

lemma AAFCO_keys_distinct: "distinct (map fst (AAFCO_STANDARDS ls))"
  by (cases ls)
     (simp_all add: AAFCO_STANDARDS_def AAFCO_DOG_ADULT_def AAFCO_DOG_PUPPY_def
        AAFCO_CAT_ADULT_def AAFCO_CAT_KITTEN_def NutrientID_defs)

lemma AAFCO_all_ok: "list_all (\<lambda>e. standard_ok (snd e)) (AAFCO_STANDARDS ls)"
  by (cases ls)
     (simp_all add: AAFCO_STANDARDS_def AAFCO_DOG_ADULT_def AAFCO_DOG_PUPPY_def
        AAFCO_CAT_ADULT_def AAFCO_CAT_KITTEN_def standard_ok_def)

lemma max_ok_D: "max_ok m mx \<Longrightarrow> mx = None \<or> (\<exists>M. mx = Some (Fin M) \<and> m \<le> M)"
  by (cases "(m, mx)" rule: max_ok.cases) auto

lemma min_ok_D:
  "min_ok mn mx \<Longrightarrow>
   \<exists>m. mn = Some (Fin m) \<and> 0 < m \<and> (mx = None \<or> (\<exists>M. mx = Some (Fin M) \<and> m \<le> M))"
  by (cases "(mn, mx)" rule: min_ok.cases) (auto dest: max_ok_D)

lemma standard_ok_D:
  "standard_ok s \<Longrightarrow>
   \<exists>m. min_val s = Some (Fin m) \<and> 0 < m \<and>
       (max_val s = None \<or> (\<exists>M. max_val s = Some (Fin M) \<and> m \<le> M))"
  unfolding standard_ok_def by (rule min_ok_D)

lemma AAFCO_entry_wf:
  "(nid, s) \<in> set (AAFCO_STANDARDS ls) \<Longrightarrow>
   \<exists>m. min_val s = Some (Fin m) \<and> 0 < m \<and>
       (max_val s = None \<or> (\<exists>M. max_val s = Some (Fin M) \<and> m \<le> M))"
  using AAFCO_all_ok [of ls] standard_ok_D [of s]
  by (auto simp: list_all_iff)

text \<open>
  C8: in every life stage of \<open>AAFCO_STANDARDS\<close>, every entry has a strictly positive
  minimum, and a maximum that is not null is not below the minimum.
\<close>

theorem AAFCO_STANDARDS_bounds:
  "\<forall>(nid, s) \<in> set (AAFCO_STANDARDS ls).
     \<exists>m. min_val s = Some (Fin m) \<and> 0 < m \<and> (\<forall>mx. max_val s = Some mx \<longrightarrow> js_le (Fin m) mx)"
proof (clarify)
  fix nid s assume "(nid, s) \<in> set (AAFCO_STANDARDS ls)"
  from AAFCO_entry_wf [OF this] obtain m where
    m: "min_val s = Some (Fin m)" "0 < m"
       "max_val s = None \<or> (\<exists>M. max_val s = Some (Fin M) \<and> m \<le> M)" by blast
  then show "\<exists>m. min_val s = Some (Fin m) \<and> 0 < m \<and> (\<forall>mx. max_val s = Some mx \<longrightarrow> js_le (Fin m) mx)"
    by (auto simp: js_le_def val_def)
qed

theorem AAFCO_STANDARDS_bounds_witness:
  "(CALCIUM, \<lparr>min_val = Some (Fin 1250), max_val = Some (Fin 6250), unit = ''MG'',
       nutrient_id = CALCIUM\<rparr>) \<in> set (AAFCO_STANDARDS DOG_ADULT) \<and>
   (0::real) < 1250 \<and> js_le (Fin 1250) (Fin 6250)"
proof -
  let ?s = "\<lparr>min_val = Some (Fin 1250), max_val = Some (Fin 6250), unit = ''MG'',
       nutrient_id = CALCIUM\<rparr>"
  have mem: "(CALCIUM, ?s) \<in> set (AAFCO_STANDARDS DOG_ADULT)"
    by (simp add: AAFCO_STANDARDS_def AAFCO_DOG_ADULT_def)
  with AAFCO_STANDARDS_bounds [of DOG_ADULT]
  have "\<exists>m. min_val ?s = Some (Fin m) \<and> 0 < m \<and> (\<forall>mx. max_val ?s = Some mx \<longrightarrow> js_le (Fin m) mx)"
    by fast
  with mem show ?thesis by simp
qed

lemma standard_of_wf:
  "standard_of ls nid = Some s \<Longrightarrow>
   \<exists>m. min_val s = Some (Fin m) \<and> 0 < m \<and>
       (max_val s = None \<or> (\<exists>M. max_val s = Some (Fin M) \<and> m \<le> M))"
  unfolding standard_of_def by (rule AAFCO_entry_wf [OF map_of_SomeD])
subsection \<open>Compliance rows\<close>

lemma compliance_loop_mem:
  "item \<in> set (compliance_loop ls ns acc) \<Longrightarrow>
   item \<in> set acc \<or>
   (\<exists>n \<in> set ns. \<exists>s. standard_of ls (n_id n) = Some s \<and>
      item = \<lparr>c_nutrient = n_name n, c_actual = n_actual n,
               c_required_min = min_val s, c_required_max = max_val s,
               c_unit = unit s, c_status = status_of (n_actual n) s\<rparr>)"
proof (induction ns arbitrary: acc)
  case Nil
  then show ?case by simp
next
  case (Cons n ns)
  show ?case
  proof (cases "standard_of ls (n_id n)")
    case None
    with Cons.prems have "item \<in> set (compliance_loop ls ns acc)" by simp
    from Cons.IH [OF this] show ?thesis by auto
  next
    case (Some s)
    let ?row = "\<lparr>c_nutrient = n_name n, c_actual = n_actual n,
               c_required_min = min_val s, c_required_max = max_val s,
               c_unit = unit s, c_status = status_of (n_actual n) s\<rparr>"
    from Some Cons.prems have "item \<in> set (compliance_loop ls ns (acc @ [?row]))" by simp
    from Cons.IH [OF this] Some show ?thesis by auto
  qed
qed

lemma complianceData_mem:
  assumes "item \<in> set (complianceData ls nd)"
  obtains a :: main_nutrient and s where "standard_of ls (n_id a) = Some s"
    and "c_actual item = n_actual a" and "c_required_min item = min_val s"
    and "c_required_max item = max_val s" and "c_status item = status_of (n_actual a) s"
  using compliance_loop_mem [OF assms [unfolded complianceData_def]] by fastforce

lemma status_of_wf:
  assumes "min_val s = Some (Fin m)" "0 < m"
    "max_val s = None \<or> (\<exists>M. max_val s = Some (Fin M) \<and> m \<le> M)"
  shows "status_of a s = classify a (min_val s) (max_val s)"
  using assms by (auto simp: status_of_def classify_def cmp_defs)

lemma classify_boundary:
  assumes "mn = Some (Fin m)" "mx = None \<or> (\<exists>M. mx = Some (Fin M) \<and> m \<le> M)"
    "mn = Some a \<or> mx = Some a"
  shows "classify a mn mx = ADEQUATE"
  using assms by (auto simp: classify_def cmp_defs)

text \<open>
  C1: for every nutrient that has a standard and every actual value, the status is
  DEFICIENT if the actual value is strictly below the minimum, otherwise EXCESSIVE if
  a maximum is defined and the actual value is strictly above it, otherwise ADEQUATE; an
  actual value equal to the minimum or to the maximum is ADEQUATE; the status depends
  only on the actual value, the minimum and the maximum; and the status of every
  compliance row is the status of its actual value under the standard of its nutrient.
\<close>

theorem status_of_classify:
  assumes "standard_of ls nid = Some s"
  shows "status_of a s = classify a (min_val s) (max_val s) \<and>
    (min_val s = Some a \<or> max_val s = Some a \<longrightarrow> status_of a s = ADEQUATE) \<and>
    (\<forall>s'. min_val s' = min_val s \<and> max_val s' = max_val s \<longrightarrow> status_of a s' = status_of a s) \<and>
    (\<forall>item \<in> set (complianceData ls nd).
       \<exists>n s0. standard_of ls n = Some s0 \<and> c_required_min item = min_val s0 \<and>
         c_required_max item = max_val s0 \<and> c_status item = status_of (c_actual item) s0 \<and>
         c_status item = classify (c_actual item) (c_required_min item) (c_required_max item))"
proof (intro conjI allI impI ballI)
  from standard_of_wf [OF assms] obtain m where m: "min_val s = Some (Fin m)" "0 < m"
    "max_val s = None \<or> (\<exists>M. max_val s = Some (Fin M) \<and> m \<le> M)" by blast
  show c: "status_of a s = classify a (min_val s) (max_val s)"
    by (rule status_of_wf [OF m])
  show "status_of a s = ADEQUATE" if "min_val s = Some a \<or> max_val s = Some a"
    unfolding c using m(1,3) that by (intro classify_boundary) auto
  show "status_of a s' = status_of a s"
    if "min_val s' = min_val s \<and> max_val s' = max_val s" for s'
    using that by (simp add: status_of_def)
next
  fix item assume "item \<in> set (complianceData ls nd)"
  then obtain x :: main_nutrient and s0 where s0: "standard_of ls (n_id x) = Some s0"
    and f: "c_actual item = n_actual x" "c_required_min item = min_val s0"
      "c_required_max item = max_val s0" "c_status item = status_of (n_actual x) s0"
    by (rule complianceData_mem)
  from standard_of_wf [OF s0] obtain m where m: "min_val s0 = Some (Fin m)" "0 < m"
    "max_val s0 = None \<or> (\<exists>M. max_val s0 = Some (Fin M) \<and> m \<le> M)" by blast
  from status_of_wf [OF m, of "c_actual item"] s0 f
  have "standard_of ls (n_id x) = Some s0 \<and> c_required_min item = min_val s0 \<and>
         c_required_max item = max_val s0 \<and> c_status item = status_of (c_actual item) s0 \<and>
         c_status item = classify (c_actual item) (c_required_min item) (c_required_max item)"
    by simp
  then show "\<exists>n s0. standard_of ls n = Some s0 \<and> c_required_min item = min_val s0 \<and>
         c_required_max item = max_val s0 \<and> c_status item = status_of (c_actual item) s0 \<and>
         c_status item = classify (c_actual item) (c_required_min item) (c_required_max item)"
    by blast
qed

theorem status_of_classify_witness:
  "standard_of DOG_ADULT CALCIUM =
     Some \<lparr>min_val = Some (Fin 1250), max_val = Some (Fin 6250), unit = ''MG'',
       nutrient_id = CALCIUM\<rparr> \<and>
   status_of (Fin 1000) \<lparr>min_val = Some (Fin 1250), max_val = Some (Fin 6250), unit = ''MG'',
       nutrient_id = CALCIUM\<rparr> = DEFICIENT \<and>
   status_of (Fin 1250) \<lparr>min_val = Some (Fin 1250), max_val = Some (Fin 6250), unit = ''MG'',
       nutrient_id = CALCIUM\<rparr> = ADEQUATE \<and>
   status_of (Fin 6250) \<lparr>min_val = Some (Fin 1250), max_val = Some (Fin 6250), unit = ''MG'',
       nutrient_id = CALCIUM\<rparr> = ADEQUATE \<and>
   status_of (Fin 7000) \<lparr>min_val = Some (Fin 1250), max_val = Some (Fin 6250), unit = ''MG'',
       nutrient_id = CALCIUM\<rparr> = EXCESSIVE \<and>
   classify (Fin 7000) (Some (Fin 1250)) (Some (Fin 6250)) = EXCESSIVE \<and>
   \<lparr>c_nutrient = ''Protein'', c_actual = Fin 40, c_required_min = Some (Fin 45),
     c_required_max = None, c_unit = ''G'', c_status = DEFICIENT\<rparr>
     \<in> set (complianceData DOG_ADULT
         \<lparr>protein = Fin 40, fat = Fin 20, carbohydrate = Fin 75, fiber = Fin 0\<rparr>)"
proof -
  let ?s = "\<lparr>min_val = Some (Fin 1250), max_val = Some (Fin 6250), unit = ''MG'',
       nutrient_id = CALCIUM\<rparr>"
  let ?nd = "\<lparr>protein = Fin 40, fat = Fin 20, carbohydrate = Fin 75, fiber = Fin 0\<rparr>"
  have s: "standard_of DOG_ADULT CALCIUM = Some ?s"
    by (simp add: standard_of_def AAFCO_STANDARDS_def AAFCO_DOG_ADULT_def NutrientID_defs)
  have pr: "\<lparr>c_nutrient = ''Protein'', c_actual = Fin 40, c_required_min = Some (Fin 45),
     c_required_max = None, c_unit = ''G'', c_status = DEFICIENT\<rparr> \<in> set (complianceData DOG_ADULT ?nd)"
    by (simp add: complianceData_def mainNutrients_def standard_of_def AAFCO_STANDARDS_def
          AAFCO_DOG_ADULT_def NutrientID_defs status_of_def cmp_defs)
  from status_of_classify [OF s, of "Fin 1000" ?nd] status_of_classify [OF s, of "Fin 1250" ?nd]
    status_of_classify [OF s, of "Fin 6250" ?nd] status_of_classify [OF s, of "Fin 7000" ?nd] s pr
  show ?thesis by (simp add: classify_def cmp_defs)
qed
lemma complianceData_eval:
  "map (\<lambda>i. (c_nutrient i, c_actual i)) (complianceData ls nd) =
     [(''Protein'', protein nd), (''Fat'', fat nd), (''Calcium'', Fin 1250),
      (''Phosphorus'', Fin 1200), (''Iron'', Fin 12)]"
  by (cases ls)
     (simp_all add: complianceData_def mainNutrients_def standard_of_def
        AAFCO_STANDARDS_def AAFCO_DOG_ADULT_def AAFCO_DOG_PUPPY_def
        AAFCO_CAT_ADULT_def AAFCO_CAT_KITTEN_def NutrientID_defs)

text \<open>
  C2 claims that the actual value of every compliance row is derived from the recipe.
  For two recipes with different nutrient contents the Protein and Fat rows differ, and
  the Calcium, Phosphorus and Iron rows carry the same values 1250, 1200 and 12: these
  three are constants of \<^verbatim>\<open>mainNutrients\<close>.
\<close>

theorem complianceData_constant_actuals:
  "map c_actual (complianceData DOG_ADULT
       (nutrientDensity (sample_result (Fin 40) (Fin 16) (Fin 60) None))) =
     [Fin 50, Fin 20, Fin 1250, Fin 1200, Fin 12] \<and>
   map c_actual (complianceData DOG_ADULT
       (nutrientDensity (sample_result (Fin 80) (Fin 32) (Fin 20) None))) =
     [Fin 100, Fin 40, Fin 1250, Fin 1200, Fin 12]"
proof -
  have "map c_actual (complianceData ls nd) = [protein nd, fat nd, Fin 1250, Fin 1200, Fin 12]"
    for ls nd
    using complianceData_eval [of ls nd, THEN arg_cong, of "map snd"] by (simp add: comp_def)
  then show ?thesis
    by (simp add: nutrientDensity_def sample_result_def num_defs)
qed
subsection \<open>Radar chart\<close>

lemma Math_min_cap: "\<not> js_gt (Math_min x (Fin c)) (Fin c)"
  by (auto simp: Math_min_def is_zero_def js_gt_def js_lt_def val_def split: jsnum.splits)

text \<open>
  C4: for every compliance row (each has a minimum), and for any row whose minimum is
  present and truthy, the radar value is the actual value divided by the minimum, times
  100, capped at 150 by \<^verbatim>\<open>Math.min\<close>, and so never above 150; for a row without a
  minimum the value is 100.
\<close>

theorem radarData_value:
  "(\<forall>i < length (complianceData ls nd).
      \<exists>m. c_required_min (complianceData ls nd ! i) = Some m \<and>
          r_value (radarData (complianceData ls nd) ! i) =
            Math_min (js_mul (js_div (c_actual (complianceData ls nd ! i)) m) (Fin 100)) (Fin 150) \<and>
          \<not> js_gt (r_value (radarData (complianceData ls nd) ! i)) (Fin 150)) \<and>
   (\<forall>i < length cd. \<forall>m. c_required_min (cd ! i) = Some m \<and> truthy m \<longrightarrow>
      r_value (radarData cd ! i) =
        Math_min (js_mul (js_div (c_actual (cd ! i)) m) (Fin 100)) (Fin 150) \<and>
      \<not> js_gt (r_value (radarData cd ! i)) (Fin 150)) \<and>
   (\<forall>i < length cd. c_required_min (cd ! i) = None \<longrightarrow> r_value (radarData cd ! i) = Fin 100)"
proof (intro conjI allI impI)
  fix i assume i: "i < length (complianceData ls nd)"
  let ?item = "complianceData ls nd ! i"
  from i have "?item \<in> set (complianceData ls nd)" by simp
  then obtain a :: main_nutrient and s where s: "standard_of ls (n_id a) = Some s"
    and f: "c_required_min ?item = min_val s"
    by (rule complianceData_mem)
  from standard_of_wf [OF s] obtain m where m: "min_val s = Some (Fin m)" "0 < m" by blast
  with f i show "\<exists>m. c_required_min ?item = Some m \<and>
          r_value (radarData (complianceData ls nd) ! i) =
            Math_min (js_mul (js_div (c_actual ?item) m) (Fin 100)) (Fin 150) \<and>
          \<not> js_gt (r_value (radarData (complianceData ls nd) ! i)) (Fin 150)"
    by (simp add: radarData_def radar_of_def Math_min_cap)
next
  fix i m assume h: "i < length cd" "c_required_min (cd ! i) = Some m \<and> truthy m"
  then show v: "r_value (radarData cd ! i) =
        Math_min (js_mul (js_div (c_actual (cd ! i)) m) (Fin 100)) (Fin 150)"
    by (simp add: radarData_def radar_of_def)
  show "\<not> js_gt (r_value (radarData cd ! i)) (Fin 150)"
    unfolding v by (rule Math_min_cap)
next
  fix i assume "i < length cd" "c_required_min (cd ! i) = None"
  then show "r_value (radarData cd ! i) = Fin 100"
    by (simp add: radarData_def radar_of_def)
qed

theorem radarData_value_witness:
  "0 < length (complianceData DOG_ADULT
         \<lparr>protein = Fin 90, fat = Fin 20, carbohydrate = Fin 75, fiber = Fin 0\<rparr>) \<and>
   r_value (radarData (complianceData DOG_ADULT
         \<lparr>protein = Fin 90, fat = Fin 20, carbohydrate = Fin 75, fiber = Fin 0\<rparr>) ! 0) = Fin 150 \<and>
   1 < length [\<lparr>c_nutrient = ''Taurine'', c_actual = Fin 5, c_required_min = None,
       c_required_max = None, c_unit = ''G'', c_status = ADEQUATE\<rparr>,
     \<lparr>c_nutrient = ''Zinc'', c_actual = Fin 15, c_required_min = Some (Fin 20),
       c_required_max = None, c_unit = ''MG'', c_status = DEFICIENT\<rparr>] \<and>
   truthy (Fin 20) \<and>
   map r_value (radarData [\<lparr>c_nutrient = ''Taurine'', c_actual = Fin 5, c_required_min = None,
       c_required_max = None, c_unit = ''G'', c_status = ADEQUATE\<rparr>,
     \<lparr>c_nutrient = ''Zinc'', c_actual = Fin 15, c_required_min = Some (Fin 20),
       c_required_max = None, c_unit = ''MG'', c_status = DEFICIENT\<rparr>]) = [Fin 100, Fin 75]"
proof -
  let ?nd = "\<lparr>protein = Fin 90, fat = Fin 20, carbohydrate = Fin 75, fiber = Fin 0\<rparr>"
  let ?cd = "[\<lparr>c_nutrient = ''Taurine'', c_actual = Fin 5, c_required_min = None,
       c_required_max = None, c_unit = ''G'', c_status = ADEQUATE\<rparr>,
     \<lparr>c_nutrient = ''Zinc'', c_actual = Fin 15, c_required_min = Some (Fin 20),
       c_required_max = None, c_unit = ''MG'', c_status = DEFICIENT\<rparr>]"
  have m: "c_required_min (complianceData DOG_ADULT ?nd ! 0) = Some (Fin 45)"
      "c_actual (complianceData DOG_ADULT ?nd ! 0) = Fin 90"
      "0 < length (complianceData DOG_ADULT ?nd)"
    by (simp_all add: complianceData_def mainNutrients_def standard_of_def AAFCO_STANDARDS_def
          AAFCO_DOG_ADULT_def NutrientID_defs)
  from radarData_value [where ls = DOG_ADULT and nd = ?nd and cd = ?cd] m
  show ?thesis by (auto simp: radarData_def radar_of_def Math_min_def js_lt_def num_defs)
qed

subsection \<open>Rounding\<close>

text \<open>
  Binary64 results used below, and the sum \<^verbatim>\<open>0.1 + 0.2\<close>, two ties at \<open>2\<^sup>5\<^sup>3\<close>, a
  negative quotient, an underflow to \<^verbatim>\<open>-0\<close>, a tie between subnormal values, an
  overflow and the divisions by a zero.
\<close>

lemma div_1000_975: "js_div (Fin 1000) (Fin 975) = Fin (288692283805801 / 2 ^ 48)"
  by (simp add: num_defs)

lemma mul_43875_factor:
  "js_mul (Fin 43.875) (Fin (288692283805801 / 2 ^ 48)) = Fin (6333186975989759 / 2 ^ 47)"
  by (simp add: num_defs)

lemma div_43875_975: "js_div (js_mul (Fin 43.875) (Fin 1000)) (Fin 975) = Fin 45"
  by (simp add: num_defs)





lemma rounding_examples:
  "js_add (Fin (3602879701896397 / 2 ^ 55)) (Fin (3602879701896397 / 2 ^ 54)) =
     Fin (1351079888211149 / 2 ^ 52)"
  "js_add (Fin 9007199254740992) (Fin 1) = Fin 9007199254740992"
  "js_add (Fin 9007199254740992) (Fin 3) = Fin 9007199254740996"
  "js_div (Fin (- 7)) (Fin 3) = Fin (- (5254199565265579 / 2 ^ 51))"
  "js_mul (Fin (- (1 / 2 ^ 600))) (Fin (1 / 2 ^ 500)) = NZero"
  "js_div (Fin (3 / 2 ^ 1074)) (Fin 2) = Fin (1 / 2 ^ 1073)"
  by (simp_all add: num_defs)

lemma overflow_example: "js_mul (Fin (10 ^ 308)) (Fin 1000) = PInf"
  by (simp add: num_defs)

lemma signed_zero_examples:
  "js_div (Fin 1000) NZero = NInf" "js_mul (Fin (- 3)) (Fin 0) = NZero"
  "js_div (Fin 1000) (Fin 0) = PInf" "js_div (Fin 0) (Fin 0) = NaN"
  by (simp_all add: num_defs)

subsection \<open>Nutrient density\<close>

text \<open>
  C3 as stated fails: for 43.875 g of protein at 975 kcal the hook computes the factor
  1000 / 975 first and gives 44.99999999999999, where grams times 1000 divided by the
  calories is 45; the Protein row of an adult dog (minimum 45) is DEFICIENT.
\<close>

theorem nutrientDensity_counterexample:
  "protein (nutrientDensity (sample_result_at (Fin 975) (Fin 400) (Fin 100) (Fin 43.875))) =
     Fin (6333186975989759 / 2 ^ 47) \<and>
   js_div (js_mul (Fin 43.875) (Fin 1000)) (Fin 975) = Fin 45 \<and>
   Fin (6333186975989759 / 2 ^ 47) \<noteq> Fin 45 \<and>
   c_status (complianceData DOG_ADULT
       (nutrientDensity (sample_result_at (Fin 975) (Fin 400) (Fin 100) (Fin 43.875))) ! 0) =
     DEFICIENT"
proof -
  have "protein (nutrientDensity (sample_result_at (Fin 975) (Fin 400) (Fin 100) (Fin 43.875))) =
     js_mul (Fin 43.875) (js_div (Fin 1000) (Fin 975))"
    by (simp add: nutrientDensity_def sample_result_at_def sample_result_def Let_def)
  also have "\<dots> = js_mul (Fin 43.875) (Fin (288692283805801 / 2 ^ 48))"
    by (simp only: div_1000_975)
  also have "\<dots> = Fin (6333186975989759 / 2 ^ 47)"
    by (rule mul_43875_factor)
  finally have p: "protein (nutrientDensity (sample_result_at (Fin 975) (Fin 400) (Fin 100) (Fin 43.875))) =
     Fin (6333186975989759 / 2 ^ 47)" .
  have "c_status (complianceData DOG_ADULT nd ! 0) = DEFICIENT"
    if "protein nd = Fin (6333186975989759 / 2 ^ 47)" for nd
    using that
    by (simp add: complianceData_def mainNutrients_def standard_of_def AAFCO_STANDARDS_def
          AAFCO_DOG_ADULT_def NutrientID_defs status_of_def cmp_defs)
  from this [OF p] p div_43875_975 show ?thesis by simp
qed

text \<open>
  C3 amended: the density of protein, fat, carbohydrate and fiber is the total grams of
  the analysis times the factor 1000 / actual calories, the factor being computed and
  rounded first; a missing (or falsy) fiber value counts as 0 grams; the target calories
  play no part.
\<close>

theorem nutrientDensity_factor:
  "protein (nutrientDensity r) =
     js_mul (protein_g (nutrition (analysis r))) (js_div (Fin 1000) (actual_calories (recipe r))) \<and>
   fat (nutrientDensity r) =
     js_mul (fat_g (nutrition (analysis r))) (js_div (Fin 1000) (actual_calories (recipe r))) \<and>
   carbohydrate (nutrientDensity r) =
     js_mul (carbohydrate_g (nutrition (analysis r)))
       (js_div (Fin 1000) (actual_calories (recipe r))) \<and>
   (fiber_g (nutrition (analysis r)) = None \<longrightarrow>
      fiber (nutrientDensity r) =
        js_mul (Fin 0) (js_div (Fin 1000) (actual_calories (recipe r)))) \<and>
   (\<forall>g. fiber_g (nutrition (analysis r)) = Some g \<and> truthy g \<longrightarrow>
      fiber (nutrientDensity r) = js_mul g (js_div (Fin 1000) (actual_calories (recipe r)))) \<and>
   (\<forall>g. fiber_g (nutrition (analysis r)) = Some g \<and> \<not> truthy g \<longrightarrow>
      fiber (nutrientDensity r) =
        js_mul (Fin 0) (js_div (Fin 1000) (actual_calories (recipe r)))) \<and>
   nutrientDensity (r\<lparr>recipe := (recipe r)\<lparr>target_calories := t\<rparr>\<rparr>) = nutrientDensity r"
  by (simp add: nutrientDensity_def Let_def)

theorem nutrientDensity_factor_witness:
  "fiber_g (nutrition (analysis (sample_result (Fin 40) (Fin 16) (Fin 60) None))) = None \<and>
   nutrientDensity (sample_result (Fin 40) (Fin 16) (Fin 60) None) =
     \<lparr>protein = Fin 50, fat = Fin 20, carbohydrate = Fin 75, fiber = Fin 0\<rparr> \<and>
   fiber_g (nutrition (analysis (sample_result (Fin 40) (Fin 16) (Fin 60) (Some (Fin 4))))) =
     Some (Fin 4) \<and> truthy (Fin 4) \<and>
   fiber (nutrientDensity (sample_result (Fin 40) (Fin 16) (Fin 60) (Some (Fin 4)))) = Fin 5 \<and>
   fiber_g (nutrition (analysis (sample_result (Fin 40) (Fin 16) (Fin 60) (Some NaN)))) =
     Some NaN \<and> \<not> truthy NaN \<and>
   fiber (nutrientDensity (sample_result (Fin 40) (Fin 16) (Fin 60) (Some NaN))) = Fin 0"
  using nutrientDensity_factor [of "sample_result (Fin 40) (Fin 16) (Fin 60) None"]
        nutrientDensity_factor [of "sample_result (Fin 40) (Fin 16) (Fin 60) (Some (Fin 4))"]
        nutrientDensity_factor [of "sample_result (Fin 40) (Fin 16) (Fin 60) (Some NaN)"]
  by (simp add: sample_result_def num_defs)

subsection \<open>Decimal formatting\<close>


subsection \<open>Economic table\<close>




subsection \<open>Macronutrient chart\<close>






subsection \<open>Recipe generation\<close>

lemma response_error_handler_plain: "\<exists>m. response_error_handler e = PlainError m"
  by (simp add: response_error_handler_def)

text \<open>
  With \<^verbatim>\<open>apiClient\<close> every failed request is rethrown, whatever the failure, and no
  result with the status \<open>Error\<close> is ever returned.
\<close>

lemma generateRecipe_rethrows:
  assumes "transport (apiRequest request) = TransportError e"
  shows "generateRecipe (apiClient_post transport) request = Inl (response_error_handler e)"
proof -
  obtain m where "response_error_handler e = PlainError m"
    using response_error_handler_plain by blast
  with assms show ?thesis
    by (simp add: generateRecipe_def generateRecipe_try_def apiClient_post_def)
qed

lemma generateRecipe_never_Error:
  assumes "generateRecipe (apiClient_post transport) request = Inr r"
  shows "status r \<noteq> Error"
proof (cases "transport (apiRequest request)")
  case (TransportOk d)
  with assms show ?thesis
    by (auto simp: generateRecipe_def generateRecipe_try_def apiClient_post_def
          split: if_splits option.splits)
next
  case (TransportError e)
  from generateRecipe_rethrows [of transport request e] TransportError assms show ?thesis by simp
qed

text \<open>
  A backend response with the status \<open>Error\<close> is thrown with its message, by any client.
\<close>

lemma generateRecipe_error_response:
  assumes "post (apiRequest request) = Resolved d" and "b_status d = Error"
  shows "generateRecipe post request =
     Inl (PlainError (str_or (b_error d) ''Recipe generation failed''))"
  using assms by (simp add: generateRecipe_def generateRecipe_try_def)

text \<open>
  C6 claims that a caught Axios error is surfaced as a result with the status \<open>Error\<close>.
  The \<^verbatim>\<open>catch\<close> block builds that result for an error that \<^verbatim>\<open>axios.isAxiosError\<close>
  recognises, and the response interceptor of the client has replaced every such error
  by a plain \<^verbatim>\<open>Error\<close> before: a request that times out, and one answered with the HTTP
  status 500, make \<^verbatim>\<open>generateRecipe\<close> reject, as does a backend response with the
  status \<open>Error\<close>.
\<close>

theorem generateRecipe_network_failure:
  "generateRecipe (apiClient_post (transport_returning (TransportError timeout_error)))
     sample_request = Inl (PlainError ''timeout of 30000ms exceeded'') \<and>
   generateRecipe (apiClient_post (transport_returning (TransportError server_error)))
     sample_request = Inl (PlainError ''No feasible solution'') \<and>
   generateRecipe (apiClient_post (transport_returning (TransportOk error_response)))
     sample_request = Inl (PlainError ''No feasible solution'')"
  by (simp add: generateRecipe_def generateRecipe_try_def apiClient_post_def
        transport_returning_def response_error_handler_def errorMessage_def
        timeout_error_def server_error_def error_response_def)

text \<open>
  C7 as stated fails: a backend response with the status \<open>Failed\<close>, which the type of
  the result admits, is returned as it is.
\<close>

theorem generateRecipe_status_counterexample:
  "generateRecipe (client_returning (Resolved failed_response)) sample_request =
     Inr ((sample_result (Fin 40) (Fin 16) (Fin 60) None)\<lparr>status := Failed\<rparr>) \<and>
   status ((sample_result (Fin 40) (Fin 16) (Fin 60) None)\<lparr>status := Failed\<rparr>) \<noteq> Success \<and>
   status ((sample_result (Fin 40) (Fin 16) (Fin 60) None)\<lparr>status := Failed\<rparr>) \<noteq> Error"
  by (simp add: generateRecipe_def generateRecipe_try_def client_returning_def
        failed_response_def sample_result_def)

text \<open>
  C7 amended: a result returned by \<^verbatim>\<open>generateRecipe\<close> is either the response of the
  backend, with the status \<open>Success\<close> or \<open>Failed\<close>, or the result built for a caught Axios
  error, with the status \<open>Error\<close>.
\<close>

theorem generateRecipe_status:
  assumes "generateRecipe post request = Inr r"
  shows "(\<exists>d. post (apiRequest request) = Resolved d \<and> status r = b_status d \<and>
            (status r = Success \<or> status r = Failed)) \<or>
         (\<exists>detail message. post (apiRequest request) = Rejected (AxiosError detail message) \<and>
            r = error_result request detail message \<and> status r = Error)"
proof (cases "post (apiRequest request)")
  case (Resolved d)
  with assms have "b_status d \<noteq> Error \<and> status r = b_status d"
    by (auto simp: generateRecipe_def generateRecipe_try_def
          split: if_splits option.splits sum.splits js_error.splits)
  with Resolved show ?thesis by (cases "b_status d") auto
next
  case (Rejected e)
  with assms show ?thesis
    by (cases e) (auto simp: generateRecipe_def generateRecipe_try_def error_result_def)
qed

theorem generateRecipe_status_witness:
  "generateRecipe (client_returning (Resolved failed_response)) sample_request =
     Inr ((sample_result (Fin 40) (Fin 16) (Fin 60) None)\<lparr>status := Failed\<rparr>) \<and>
   client_returning (Resolved failed_response) (apiRequest sample_request) =
     Resolved failed_response \<and>
   b_status failed_response = Failed"
proof -
  have g: "generateRecipe (client_returning (Resolved failed_response)) sample_request =
     Inr ((sample_result (Fin 40) (Fin 16) (Fin 60) None)\<lparr>status := Failed\<rparr>)"
    by (simp add: generateRecipe_def generateRecipe_try_def client_returning_def
        failed_response_def sample_result_def)
  from generateRecipe_status [OF g] g show ?thesis
    by (simp add: client_returning_def failed_response_def)
qed

end
